theory Spec2Isabelle
  imports Complex_Main "HOL-Library.AList"
begin

section \<open>Python values\<close>

text \<open>
  The pipeline of \<^verbatim>\<open>task_extractor.py\<close> works on dictionaries decoded from JSON
  (\<^verbatim>\<open>Dict[str, Any]\<close>), so a field may hold any JSON value or be absent. The values are
  modelled by one datatype. A dictionary is an association list in insertion order; a key
  is looked up with \<open>map_of\<close> and assigned with \<open>AList.update\<close>, which replaces the
  value of a key in place and appends a new key at the end, as a Python \<^verbatim>\<open>dict\<close> does.

  Python's \<^verbatim>\<open>float\<close> is modelled by \<open>real\<close>: arithmetic is exact, and infinities
  and NaN are outside the model. A string is a list of 8-bit characters.
\<close>

datatype pyval =
    PNone
  | PBool bool
  | PInt int
  | PFloat real
  | PStr string
  | PList "pyval list"
  | PDict "(string \<times> pyval) list"

type_synonym pydict = "(string \<times> pyval) list"

datatype py_error = TypeError | AttributeError | KeyError | IndexError | ValueError

text \<open>\<^verbatim>\<open>d.get(k, default)\<close>; \<^verbatim>\<open>d.get(k)\<close> is \<open>dict_get d k PNone\<close>.\<close>

definition dict_get :: "pydict \<Rightarrow> string \<Rightarrow> pyval \<Rightarrow> pyval" where
  "dict_get d k dflt = (case map_of d k of None \<Rightarrow> dflt | Some v \<Rightarrow> v)"

text \<open>\<^verbatim>\<open>d[k]\<close> raises KeyError on a missing key.\<close>

definition dict_item :: "pydict \<Rightarrow> string \<Rightarrow> py_error + pyval" where
  "dict_item d k = (case map_of d k of None \<Rightarrow> Inl KeyError | Some v \<Rightarrow> Inr v)"

text \<open>Truth value testing (\<^verbatim>\<open>not x\<close>, \<^verbatim>\<open>if x\<close>).\<close>

fun truthy :: "pyval \<Rightarrow> bool" where
  "truthy PNone = False"
| "truthy (PBool b) = b"
| "truthy (PInt i) = (i \<noteq> 0)"
| "truthy (PFloat x) = (x \<noteq> 0)"
| "truthy (PStr s) = (s \<noteq> [])"
| "truthy (PList xs) = (xs \<noteq> [])"
| "truthy (PDict d) = (d \<noteq> [])"

text \<open>
  The numeric value of an operand of \<^verbatim>\<open>x - penalties\<close> and of \<^verbatim>\<open>x >= threshold\<close>, where
  the other operand is a float: an int or a bool (a subclass of int) is converted, and
  every other type raises TypeError.
\<close>

fun py_float :: "pyval \<Rightarrow> py_error + real" where
  "py_float (PFloat x) = Inr x"
| "py_float (PInt i) = Inr (of_int i)"
| "py_float (PBool b) = Inr (if b then 1 else 0)"
| "py_float PNone = Inl TypeError"
| "py_float (PStr s) = Inl TypeError"
| "py_float (PList xs) = Inl TypeError"
| "py_float (PDict d) = Inl TypeError"

text \<open>
  \<^verbatim>\<open>str.lower()\<close> on the ASCII letters; every other character is left as it is.
  A value that is not a string has no method \<^verbatim>\<open>lower\<close>.
\<close>

definition lower_char :: "char \<Rightarrow> char" where
  "lower_char c =
     (let n = (of_char c :: nat)
      in if 65 \<le> n \<and> n \<le> 90 then char_of (n + 32) else c)"

fun py_lower :: "pyval \<Rightarrow> py_error + string" where
  "py_lower (PStr s) = Inr (map lower_char s)"
| "py_lower v = Inl AttributeError"

text \<open>\<^verbatim>\<open>word in description\<close> on strings: \<open>word\<close> occurs as a contiguous substring.\<close>

fun starts_with :: "string \<Rightarrow> string \<Rightarrow> bool" where
  "starts_with [] s = True"
| "starts_with (w # ws) [] = False"
| "starts_with (w # ws) (c # cs) = (w = c \<and> starts_with ws cs)"

fun py_in :: "string \<Rightarrow> string \<Rightarrow> bool" where
  "py_in word [] = (word = [])"
| "py_in word (c # cs) = (starts_with word (c # cs) \<or> py_in word cs)"

section \<open>ConfidenceCalculator\<close>

definition vague_words :: "string list" where
  "vague_words = [''maybe'', ''might'', ''possibly'', ''consider'', ''think about'']"

text \<open>
  \<^verbatim>\<open>calculate_final_confidence\<close>, statement by statement. \<^verbatim>\<open>.lower()\<close> is called
  before the subtraction, so a description that is not a string raises first.
\<close>

definition calculate_final_confidence :: "pydict \<Rightarrow> py_error + pydict" where
  "calculate_final_confidence task =
     (let llm_confidence = dict_get task ''confidence_score'' (PFloat 0.0);
          penalties = (0.0 :: real);
          adjustments = ([] :: string list);
          (penalties, adjustments) =
            (if \<not> truthy (dict_get task ''deadline'' PNone)
             then (penalties + 0.15, adjustments @ [''No deadline specified (-0.15)''])
             else (penalties, adjustments));
          (penalties, adjustments) =
            (if dict_get task ''assignee'' PNone = PStr ''unspecified''
             then (penalties + 0.20, adjustments @ [''Assignee not specified (-0.20)''])
             else (penalties, adjustments))
      in case py_lower (dict_get task ''task_description'' (PStr [])) of
           Inl e \<Rightarrow> Inl e
         | Inr description \<Rightarrow>
             (let (penalties, adjustments) =
                    (if list_ex (\<lambda>word. py_in word description) vague_words
                     then (penalties + 0.10, adjustments @ [''Vague language detected (-0.10)''])
                     else (penalties, adjustments))
              in case py_float llm_confidence of
                   Inl e \<Rightarrow> Inl e
                 | Inr c \<Rightarrow>
                     (let final_confidence = max 0.0 (min 1.0 (c - penalties))
                      in Inr [(''llm_confidence'', llm_confidence),
                              (''rule_penalties'', PFloat penalties),
                              (''final_confidence'', PFloat final_confidence),
                              (''adjustments'', PList (map PStr adjustments)),
                              (''needs_review'', PBool (final_confidence < 0.7))])))"

section \<open>TaskReviewQueue\<close>

text \<open>
  The object's state: the two thresholds (annotated \<^verbatim>\<open>float\<close>) and the three lanes.
  A method takes the state and returns its result together with the state it leaves.
\<close>

record TaskReviewQueue =
  auto_approve_threshold :: real
  high_priority_threshold :: real
  auto_approved :: "pydict list"
  standard_review :: "pydict list"
  high_priority_review :: "pydict list"

text \<open>\<^verbatim>\<open>__init__\<close> stores its arguments and has no \<^verbatim>\<open>raise\<close>.\<close>

definition TaskReviewQueue_init :: "real \<Rightarrow> real \<Rightarrow> py_error + TaskReviewQueue" where
  "TaskReviewQueue_init auto_approve_thr high_priority_thr =
     Inr \<lparr>auto_approve_threshold = auto_approve_thr,
          high_priority_threshold = high_priority_thr,
          auto_approved = [],
          standard_review = [],
          high_priority_review = []\<rparr>"

text \<open>\<^verbatim>\<open>x >= threshold\<close> against a float threshold.\<close>

definition py_ge :: "pyval \<Rightarrow> real \<Rightarrow> py_error + bool" where
  "py_ge v t = (case py_float v of Inl e \<Rightarrow> Inl e | Inr x \<Rightarrow> Inr (x \<ge> t))"

text \<open>
  \<^verbatim>\<open>route_task\<close>; \<open>now\<close> is the string that \<^verbatim>\<open>datetime.now().isoformat()\<close> gives at
  the call. Both places that can raise come before the \<^verbatim>\<open>append\<close>.
\<close>

definition route_task ::
  "TaskReviewQueue \<Rightarrow> string \<Rightarrow> pydict \<Rightarrow> pydict \<Rightarrow> py_error + (pydict \<times> TaskReviewQueue)" where
  "route_task self now task confidence_metrics =
     (case dict_item confidence_metrics ''final_confidence'' of
        Inl e \<Rightarrow> Inl e
      | Inr final_confidence \<Rightarrow>
          (let task_with_metadata =
                 AList.update ''routed_at'' (PStr now)
                   (AList.update ''confidence_metrics'' (PDict confidence_metrics) task)
           in case py_ge final_confidence (auto_approve_threshold self) of
                Inl e \<Rightarrow> Inl e
              | Inr above_auto \<Rightarrow>
                  if above_auto then
                    (let task_with_metadata =
                           AList.update ''queue'' (PStr ''auto_approved'')
                             (AList.update ''review_status'' (PStr ''auto_approved'')
                                task_with_metadata)
                     in Inr (task_with_metadata,
                             self\<lparr>auto_approved := auto_approved self @ [task_with_metadata]\<rparr>))
                  else
                    (case py_ge final_confidence (high_priority_threshold self) of
                       Inl e \<Rightarrow> Inl e
                     | Inr above_high \<Rightarrow>
                         if above_high then
                           (let task_with_metadata =
                                  AList.update ''queue'' (PStr ''standard_review'')
                                    (AList.update ''review_status'' (PStr ''needs_review'')
                                       task_with_metadata)
                            in Inr (task_with_metadata,
                                    self\<lparr>standard_review :=
                                           standard_review self @ [task_with_metadata]\<rparr>))
                         else
                           (let task_with_metadata =
                                  AList.update ''queue'' (PStr ''high_priority_review'')
                                    (AList.update ''review_status'' (PStr ''needs_urgent_review'')
                                       task_with_metadata)
                            in Inr (task_with_metadata,
                                    self\<lparr>high_priority_review :=
                                           high_priority_review self @ [task_with_metadata]\<rparr>)))))"

definition get_summary :: "TaskReviewQueue \<Rightarrow> pydict \<times> TaskReviewQueue" where
  "get_summary self =
     ([(''total_tasks'',
          PInt (int (length (auto_approved self)) + int (length (standard_review self))
                + int (length (high_priority_review self)))),
       (''auto_approved'', PInt (int (length (auto_approved self)))),
       (''standard_review'', PInt (int (length (standard_review self)))),
       (''high_priority_review'', PInt (int (length (high_priority_review self))))],
      self)"

definition get_review_tasks :: "TaskReviewQueue \<Rightarrow> pydict list \<times> TaskReviewQueue" where
  "get_review_tasks self = (high_priority_review self @ standard_review self, self)"

text \<open>
  A client's sequence of \<^verbatim>\<open>route_task\<close> calls on one queue, each with its time, task and
  metrics; an exception of a call ends the sequence. The routed tasks are returned in
  call order.
\<close>

type_synonym route_call = "string \<times> pydict \<times> pydict"

fun route_calls ::
  "TaskReviewQueue \<Rightarrow> route_call list \<Rightarrow> py_error + (pydict list \<times> TaskReviewQueue)" where
  "route_calls self [] = Inr ([], self)"
| "route_calls self ((now, task, metrics) # calls) =
     (case route_task self now task metrics of
        Inl e \<Rightarrow> Inl e
      | Inr (routed, self') \<Rightarrow>
          (case route_calls self' calls of
             Inl e \<Rightarrow> Inl e
           | Inr (rest, self'') \<Rightarrow> Inr (routed # rest, self'')))"

section \<open>process\_email\<close>

text \<open>
  \<^verbatim>\<open>TaskExtractor.__init__\<close>: \<^verbatim>\<open>api_key or os.getenv('ANTHROPIC_API_KEY')\<close>, and
  ValueError when neither is a non-empty string. \<open>None\<close> is Python's \<^verbatim>\<open>None\<close>.
\<close>

definition TaskExtractor_init :: "string option \<Rightarrow> string option \<Rightarrow> py_error + string" where
  "TaskExtractor_init api_key getenv =
     (let key = (case api_key of
                   Some k \<Rightarrow> if k \<noteq> [] then Some k else getenv
                 | None \<Rightarrow> getenv)
      in case key of
           Some k \<Rightarrow> if k \<noteq> [] then Inr k else Inl ValueError
         | None \<Rightarrow> Inl ValueError)"

text \<open>\<^verbatim>\<open>TaskExtractor._create_error_response\<close>, with the timestamp it reads.\<close>

definition create_error_response :: "string \<Rightarrow> string \<Rightarrow> pydict" where
  "create_error_response error_message timestamp =
     [(''tasks'', PList []),
      (''overall_confidence'', PFloat 0.0),
      (''ambiguities'', PList [PStr error_message]),
      (''extraction_timestamp'', PStr timestamp),
      (''error'', PBool True)]"

text \<open>\<^verbatim>\<open>x[0]\<close>. The keys of a dictionary decoded from JSON are strings, so 0 is not one.\<close>

fun py_getitem0 :: "pyval \<Rightarrow> py_error + pyval" where
  "py_getitem0 (PList []) = Inl IndexError"
| "py_getitem0 (PList (x # xs)) = Inr x"
| "py_getitem0 (PStr []) = Inl IndexError"
| "py_getitem0 (PStr (c # cs)) = Inr (PStr [c])"
| "py_getitem0 (PDict d) = Inl KeyError"
| "py_getitem0 v = Inl TypeError"

text \<open>The items a \<^verbatim>\<open>for\<close> loop visits: a string gives its characters, a dictionary its keys.\<close>

fun py_iter :: "pyval \<Rightarrow> py_error + pyval list" where
  "py_iter (PList xs) = Inr xs"
| "py_iter (PStr s) = Inr (map (\<lambda>c. PStr [c]) s)"
| "py_iter (PDict d) = Inr (map (\<lambda>kv. PStr (fst kv)) d)"
| "py_iter v = Inl TypeError"

text \<open>Only a dictionary has the method \<^verbatim>\<open>get\<close> that the calculator calls first.\<close>

fun as_dict :: "pyval \<Rightarrow> py_error + pydict" where
  "as_dict (PDict d) = Inr d"
| "as_dict v = Inl AttributeError"

text \<open>
  The loop of \<^verbatim>\<open>process_email\<close> over the tasks, with the queue and \<^verbatim>\<open>processed_tasks\<close>
  as its state. \<open>clock i\<close> is the time read by the call of \<^verbatim>\<open>route_task\<close> that follows
  \<open>i\<close> earlier ones.
\<close>

fun process_tasks ::
  "(nat \<Rightarrow> string) \<Rightarrow> TaskReviewQueue \<Rightarrow> pydict list \<Rightarrow> pyval list
     \<Rightarrow> py_error + (pydict list \<times> TaskReviewQueue)" where
  "process_tasks clock queue processed_tasks [] = Inr (processed_tasks, queue)"
| "process_tasks clock queue processed_tasks (t # ts) =
     (case as_dict t of
        Inl e \<Rightarrow> Inl e
      | Inr task \<Rightarrow>
          (case calculate_final_confidence task of
             Inl e \<Rightarrow> Inl e
           | Inr confidence_metrics \<Rightarrow>
               (case route_task queue (clock (length processed_tasks)) task confidence_metrics of
                  Inl e \<Rightarrow> Inl e
                | Inr (routed_task, queue') \<Rightarrow>
                    process_tasks clock queue' (processed_tasks @ [routed_task]) ts)))"

text \<open>
  \<^verbatim>\<open>process_email\<close>. \<open>extract_tasks\<close> is the extractor's method of that name, which
  calls the language model and always returns a dictionary; \<open>getenv\<close> is the value of the
  environment variable.
\<close>

definition process_email ::
  "(string \<Rightarrow> string \<Rightarrow> string option \<Rightarrow> pydict) \<Rightarrow> (nat \<Rightarrow> string) \<Rightarrow> string option
     \<Rightarrow> string \<Rightarrow> string option \<Rightarrow> string option \<Rightarrow> py_error + pydict" where
  "process_email extract_tasks clock getenv email_content sender api_key =
     (case TaskExtractor_init api_key getenv of
        Inl e \<Rightarrow> Inl e
      | Inr key \<Rightarrow>
          (case TaskReviewQueue_init 0.7 0.5 of
             Inl e \<Rightarrow> Inl e
           | Inr queue \<Rightarrow>
               (let extraction_result = extract_tasks key email_content sender
                in if truthy (dict_get extraction_result ''error'' PNone) then
                     (case py_getitem0 (dict_get extraction_result ''ambiguities''
                                          (PList [PStr ''Unknown error''])) of
                        Inl e \<Rightarrow> Inl e
                      | Inr message \<Rightarrow>
                          Inr [(''success'', PBool False),
                               (''error'', message),
                               (''extraction_result'', PDict extraction_result)])
                   else
                     (case py_iter (dict_get extraction_result ''tasks'' (PList [])) of
                        Inl e \<Rightarrow> Inl e
                      | Inr tasks \<Rightarrow>
                          (case process_tasks clock queue [] tasks of
                             Inl e \<Rightarrow> Inl e
                           | Inr (processed_tasks, queue) \<Rightarrow>
                               (let (queue_summary, queue) = get_summary queue;
                                    auto_approved_tasks = auto_approved queue;
                                    (review_tasks, queue) = get_review_tasks queue
                                in Inr [(''success'', PBool True),
                                        (''extraction_result'', PDict extraction_result),
                                        (''processed_tasks'', PList (map PDict processed_tasks)),
                                        (''queue_summary'', PDict queue_summary),
                                        (''auto_approved_tasks'',
                                           PList (map PDict auto_approved_tasks)),
                                        (''review_tasks'',
                                           PList (map PDict review_tasks))]))))))"

section \<open>Notions used in the statements\<close>

text \<open>
  The field types of a task record that the calculator can score: a confidence score that
  is a number when present, and a description that is a string when present. Python
  counts a bool as a number.
\<close>

fun is_number :: "pyval \<Rightarrow> bool" where
  "is_number (PFloat x) = True"
| "is_number (PInt i) = True"
| "is_number (PBool b) = True"
| "is_number v = False"

fun is_text :: "pyval \<Rightarrow> bool" where
  "is_text (PStr s) = True"
| "is_text v = False"

definition scorable :: "pydict \<Rightarrow> bool" where
  "scorable task =
     ((case map_of task ''confidence_score'' of None \<Rightarrow> True | Some v \<Rightarrow> is_number v) \<and>
      (case map_of task ''task_description'' of None \<Rightarrow> True | Some v \<Rightarrow> is_text v))"


text \<open>The tests of the three penalty rules, and the sum and the trail they produce.\<close>

definition deadline_missing :: "pydict \<Rightarrow> bool" where
  "deadline_missing task = (\<not> truthy (dict_get task ''deadline'' PNone))"

definition assignee_unspecified :: "pydict \<Rightarrow> bool" where
  "assignee_unspecified task = (dict_get task ''assignee'' PNone = PStr ''unspecified'')"

definition vague :: "string \<Rightarrow> bool" where
  "vague description = list_ex (\<lambda>word. py_in word description) vague_words"

definition penalty_sum :: "pydict \<Rightarrow> string \<Rightarrow> real" where
  "penalty_sum task description =
     (if deadline_missing task then 0.15 else 0) + (if assignee_unspecified task then 0.20 else 0)
     + (if vague description then 0.10 else 0)"

definition adjustment_trail :: "pydict \<Rightarrow> string \<Rightarrow> string list" where
  "adjustment_trail task description =
     (if deadline_missing task then [''No deadline specified (-0.15)''] else [])
     @ (if assignee_unspecified task then [''Assignee not specified (-0.20)''] else [])
     @ (if vague description then [''Vague language detected (-0.10)''] else [])"

text \<open>Task records used as concrete inputs.\<close>

definition scenario1 :: pydict where
  "scenario1 =
     [(''task_description'', PStr ''finalize report''), (''assignee'', PStr ''unspecified''),
      (''deadline'', PNone), (''priority'', PStr ''high''), (''confidence_score'', PFloat 0.95)]"


definition dated_task :: pydict where
  "dated_task =
     [(''task_description'', PStr ''Send the Q1 Report''), (''assignee'', PStr ''John''),
      (''deadline'', PStr ''2024-03-15''), (''confidence_score'', PFloat 0.9)]"

definition undated_task :: pydict where
  "undated_task =
     [(''task_description'', PStr ''We might want to meet''), (''assignee'', PStr ''Mike''),
      (''deadline'', PStr []), (''confidence_score'', PFloat 0.8)]"

text \<open>
  The dictionary that \<^verbatim>\<open>route_task\<close> returns for a task placed in \<open>lane\<close> with
  \<open>status\<close>: the task's own fields and the four fields added to them.
\<close>

definition routed :: "string \<Rightarrow> pydict \<Rightarrow> pydict \<Rightarrow> string \<Rightarrow> string \<Rightarrow> pydict" where
  "routed now task metrics lane status =
     AList.update ''queue'' (PStr lane)
       (AList.update ''review_status'' (PStr status)
          (AList.update ''routed_at'' (PStr now)
             (AList.update ''confidence_metrics'' (PDict metrics) task)))"

text \<open>The routed task carries the lane's name under \<^verbatim>\<open>queue\<close>.\<close>

definition in_lane :: "string \<Rightarrow> pydict \<Rightarrow> bool" where
  "in_lane lane r = (map_of r ''queue'' = Some (PStr lane))"

text \<open>Metrics that \<^verbatim>\<open>route_task\<close> can compare: \<^verbatim>\<open>final_confidence\<close> is present and a number.\<close>

definition routable :: "pydict \<Rightarrow> bool" where
  "routable metrics =
     (case map_of metrics ''final_confidence'' of None \<Rightarrow> False | Some v \<Rightarrow> is_number v)"

text \<open>
  The specification's condition on the two thresholds: both within [0, 1] and
  \<^verbatim>\<open>high_priority_threshold <= auto_approve_threshold\<close>.
\<close>

definition valid_thresholds :: "real \<Rightarrow> real \<Rightarrow> bool" where
  "valid_thresholds auto_approve_thr high_priority_thr =
     (0 \<le> auto_approve_thr \<and> auto_approve_thr \<le> 1 \<and> 0 \<le> high_priority_thr
      \<and> high_priority_thr \<le> 1 \<and> high_priority_thr \<le> auto_approve_thr)"

text \<open>The queue built from the default thresholds of \<^verbatim>\<open>__init__\<close>, 0.7 and 0.5.\<close>

definition default_queue :: TaskReviewQueue where
  "default_queue =
     \<lparr>auto_approve_threshold = 0.7, high_priority_threshold = 0.5,
      auto_approved = [], standard_review = [], high_priority_review = []\<rparr>"

text \<open>Metrics and calls used as concrete inputs.\<close>

definition metrics_at :: "real \<Rightarrow> pydict" where
  "metrics_at x =
     [(''llm_confidence'', PFloat x), (''rule_penalties'', PFloat 0),
      (''final_confidence'', PFloat x), (''adjustments'', PList []),
      (''needs_review'', PBool (x < 0.7))]"

definition unscored_task :: pydict where
  "unscored_task =
     [(''task_description'', PStr ''Book the room''), (''assignee'', PStr ''Ann''),
      (''deadline'', PStr ''2024-05-01'')]"

definition example_calls :: "route_call list" where
  "example_calls =
     [(''2024-03-01T09:00:00'', scenario1, metrics_at 0.6),
      (''2024-03-01T09:00:01'', dated_task, metrics_at 0.9),
      (''2024-03-01T09:00:02'', undated_task, metrics_at 0.2),
      (''2024-03-01T09:00:03'', unscored_task, metrics_at 0.5)]"





section \<open>The calculator returns exactly on scorable records\<close>

lemma is_number_float: "is_number v \<Longrightarrow> \<exists>c. py_float v = Inr c"
  by (cases v) simp_all

lemma is_text_lower: "is_text v \<Longrightarrow> \<exists>d. py_lower v = Inr d"
  by (cases v) simp_all

lemma float_number: "py_float v = Inr c \<Longrightarrow> is_number v"
  by (cases v) simp_all

lemma lower_text: "py_lower v = Inr d \<Longrightarrow> is_text v"
  by (cases v) simp_all

lemma scorable_float:
  "scorable task \<Longrightarrow> \<exists>c. py_float (dict_get task ''confidence_score'' (PFloat 0)) = Inr c"
  by (auto simp: scorable_def dict_get_def is_number_float split: option.splits)

lemma scorable_lower:
  "scorable task \<Longrightarrow> \<exists>d. py_lower (dict_get task ''task_description'' (PStr [])) = Inr d"
  by (auto simp: scorable_def dict_get_def is_text_lower split: option.splits)

lemma calculate_value:
  assumes "py_float (dict_get task ''confidence_score'' (PFloat 0)) = Inr c"
    and "py_lower (dict_get task ''task_description'' (PStr [])) = Inr d"
  shows "calculate_final_confidence task =
     Inr [(''llm_confidence'', dict_get task ''confidence_score'' (PFloat 0)),
          (''rule_penalties'', PFloat (penalty_sum task d)),
          (''final_confidence'', PFloat (max 0 (min 1 (c - penalty_sum task d)))),
          (''adjustments'', PList (map PStr (adjustment_trail task d))),
          (''needs_review'', PBool (max 0 (min 1 (c - penalty_sum task d)) < 0.7))]"
  using assms
  by (simp add: calculate_final_confidence_def Let_def penalty_sum_def adjustment_trail_def
      deadline_missing_def assignee_unspecified_def vague_def)

lemma calculate_returns_iff:
  "(\<exists>m. calculate_final_confidence task = Inr m) \<longleftrightarrow> scorable task"
proof
  assume "\<exists>m. calculate_final_confidence task = Inr m"
  then show "scorable task"
    by (auto simp: calculate_final_confidence_def scorable_def dict_get_def Let_def
        split: sum.splits option.splits prod.splits dest: float_number lower_text)
next
  assume s: "scorable task"
  from scorable_float [OF s] scorable_lower [OF s]
  show "\<exists>m. calculate_final_confidence task = Inr m"
    by (auto simp: calculate_value)
qed


section \<open>Claims about the calculator\<close>



text \<open>
  C5. A task record whose deadline is absent or null, whose assignee is exactly the string
  "unspecified" and whose lower-cased description contains none of the five hedge words
  gets a penalty total of 0.35 and exactly two adjustment entries, the deadline entry
  before the assignee entry.
\<close>

theorem missing_deadline_and_assignee:
  assumes "map_of task ''deadline'' = None \<or> map_of task ''deadline'' = Some PNone"
    and "map_of task ''assignee'' = Some (PStr ''unspecified'')"
    and "py_lower (dict_get task ''task_description'' (PStr [])) = Inr d"
    and "\<not> list_ex (\<lambda>word. py_in word d) vague_words"
    and "py_float (dict_get task ''confidence_score'' (PFloat 0)) = Inr c"
  shows "\<exists>m. calculate_final_confidence task = Inr m
      \<and> map_of m ''rule_penalties'' = Some (PFloat 0.35)
      \<and> map_of m ''adjustments'' =
          Some (PList [PStr ''No deadline specified (-0.15)'',
                       PStr ''Assignee not specified (-0.20)''])"
proof -
  have dm: "deadline_missing task"
    using assms(1) by (auto simp: deadline_missing_def dict_get_def)
  have au: "assignee_unspecified task"
    using assms(2) by (simp add: assignee_unspecified_def dict_get_def)
  have nv: "\<not> vague d"
    using assms(4) by (simp add: vague_def)
  show ?thesis
    by (simp add: calculate_value [OF assms(5) assms(3)] penalty_sum_def adjustment_trail_def
        dm au nv)
qed

theorem missing_deadline_and_assignee_witness:
  "(map_of scenario1 ''deadline'' = None \<or> map_of scenario1 ''deadline'' = Some PNone)
   \<and> map_of scenario1 ''assignee'' = Some (PStr ''unspecified'')
   \<and> py_lower (dict_get scenario1 ''task_description'' (PStr [])) = Inr ''finalize report''
   \<and> \<not> list_ex (\<lambda>word. py_in word ''finalize report'') vague_words
   \<and> py_float (dict_get scenario1 ''confidence_score'' (PFloat 0)) = Inr 0.95
   \<and> (\<exists>m. calculate_final_confidence scenario1 = Inr m
      \<and> map_of m ''rule_penalties'' = Some (PFloat 0.35)
      \<and> map_of m ''adjustments'' =
          Some (PList [PStr ''No deadline specified (-0.15)'',
                       PStr ''Assignee not specified (-0.20)'']))"
proof -
  have 1: "map_of scenario1 ''deadline'' = None \<or> map_of scenario1 ''deadline'' = Some PNone"
    by (simp add: scenario1_def)
  have 2: "map_of scenario1 ''assignee'' = Some (PStr ''unspecified'')"
    by (simp add: scenario1_def)
  have 3: "py_lower (dict_get scenario1 ''task_description'' (PStr [])) = Inr ''finalize report''"
    by code_simp
  have 4: "\<not> list_ex (\<lambda>word. py_in word ''finalize report'') vague_words"
    by (simp add: vague_words_def)
  have 5: "py_float (dict_get scenario1 ''confidence_score'' (PFloat 0)) = Inr 0.95"
    by (simp add: scenario1_def dict_get_def)
  from 1 2 3 4 5 missing_deadline_and_assignee [OF 1 2 3 4 5] show ?thesis by blast
qed

text \<open>
  C8. When no penalty rule fires (the deadline is present and not empty, the assignee is
  not the string "unspecified", the lower-cased description contains no hedge word) and
  the base confidence \<open>c\<close> lies in [0, 1], the final confidence is \<open>c\<close>; the penalty total
  is 0 and the adjustment trail is empty.
\<close>

theorem no_penalty_identity:
  assumes "py_float (dict_get task ''confidence_score'' (PFloat 0)) = Inr c"
    and "0 \<le> c" and "c \<le> 1"
    and "truthy (dict_get task ''deadline'' PNone)"
    and "dict_get task ''assignee'' PNone \<noteq> PStr ''unspecified''"
    and "py_lower (dict_get task ''task_description'' (PStr [])) = Inr d"
    and "\<not> list_ex (\<lambda>word. py_in word d) vague_words"
  shows "\<exists>m. calculate_final_confidence task = Inr m
      \<and> map_of m ''final_confidence'' = Some (PFloat c)
      \<and> map_of m ''rule_penalties'' = Some (PFloat 0)
      \<and> map_of m ''adjustments'' = Some (PList [])"
proof -
  have dm: "\<not> deadline_missing task"
    using assms(4) by (simp add: deadline_missing_def)
  have au: "\<not> assignee_unspecified task"
    using assms(5) by (simp add: assignee_unspecified_def)
  have nv: "\<not> vague d"
    using assms(7) by (simp add: vague_def)
  have p: "penalty_sum task d = 0" "adjustment_trail task d = []"
    by (simp_all add: penalty_sum_def adjustment_trail_def dm au nv)
  have "max 0 (min 1 c) = c"
    using assms(2,3) by simp
  then show ?thesis
    by (simp add: calculate_value [OF assms(1) assms(6)] p)
qed

theorem no_penalty_identity_witness:
  "py_float (dict_get dated_task ''confidence_score'' (PFloat 0)) = Inr 0.9
   \<and> (0::real) \<le> 0.9 \<and> (0.9::real) \<le> 1
   \<and> truthy (dict_get dated_task ''deadline'' PNone)
   \<and> dict_get dated_task ''assignee'' PNone \<noteq> PStr ''unspecified''
   \<and> py_lower (dict_get dated_task ''task_description'' (PStr [])) = Inr ''send the q1 report''
   \<and> \<not> list_ex (\<lambda>word. py_in word ''send the q1 report'') vague_words
   \<and> (\<exists>m. calculate_final_confidence dated_task = Inr m
      \<and> map_of m ''final_confidence'' = Some (PFloat 0.9)
      \<and> map_of m ''rule_penalties'' = Some (PFloat 0)
      \<and> map_of m ''adjustments'' = Some (PList []))"
proof -
  have 1: "py_float (dict_get dated_task ''confidence_score'' (PFloat 0)) = Inr 0.9"
    by (simp add: dated_task_def dict_get_def)
  have 2: "(0::real) \<le> 0.9" and 3: "(0.9::real) \<le> 1" by simp_all
  have 4: "truthy (dict_get dated_task ''deadline'' PNone)"
    by (simp add: dated_task_def dict_get_def)
  have 5: "dict_get dated_task ''assignee'' PNone \<noteq> PStr ''unspecified''"
    by (simp add: dated_task_def dict_get_def)
  have 6: "py_lower (dict_get dated_task ''task_description'' (PStr []))
             = Inr ''send the q1 report''"
    by code_simp
  have 7: "\<not> list_ex (\<lambda>word. py_in word ''send the q1 report'') vague_words"
    by (simp add: vague_words_def)
  from 1 2 3 4 5 6 7 no_penalty_identity [OF 1 2 3 4 5 6 7] show ?thesis by blast
qed

text \<open>
  C10. The missing-deadline rule fires for every falsy value of the deadline field, the
  empty string included: the penalty total contains the 0.15 (next to whatever the other
  two rules add) and the adjustment trail starts with "No deadline specified (-0.15)".
\<close>

theorem falsy_deadline_penalised:
  assumes "map_of task ''deadline'' = Some v" and "\<not> truthy v"
    and "py_float (dict_get task ''confidence_score'' (PFloat 0)) = Inr c"
    and "py_lower (dict_get task ''task_description'' (PStr [])) = Inr d"
  shows "\<exists>m rest. calculate_final_confidence task = Inr m
      \<and> map_of m ''rule_penalties'' =
          Some (PFloat (0.15
                  + (if dict_get task ''assignee'' PNone = PStr ''unspecified'' then 0.20 else 0)
                  + (if list_ex (\<lambda>word. py_in word d) vague_words then 0.10 else 0)))
      \<and> map_of m ''adjustments'' = Some (PList (PStr ''No deadline specified (-0.15)'' # rest))"
proof -
  have dm: "deadline_missing task"
    using assms(1,2) by (simp add: deadline_missing_def dict_get_def)
  show ?thesis
    by (simp add: calculate_value [OF assms(3) assms(4)] penalty_sum_def adjustment_trail_def dm
        assignee_unspecified_def vague_def)
qed

theorem falsy_deadline_penalised_witness:
  "map_of undated_task ''deadline'' = Some (PStr []) \<and> \<not> truthy (PStr [])
   \<and> py_float (dict_get undated_task ''confidence_score'' (PFloat 0)) = Inr 0.8
   \<and> py_lower (dict_get undated_task ''task_description'' (PStr []))
       = Inr ''we might want to meet''
   \<and> (\<exists>m rest. calculate_final_confidence undated_task = Inr m
      \<and> map_of m ''rule_penalties'' = Some (PFloat 0.25)
      \<and> map_of m ''adjustments'' = Some (PList (PStr ''No deadline specified (-0.15)'' # rest)))"
proof -
  have 1: "map_of undated_task ''deadline'' = Some (PStr [])"
    by (simp add: undated_task_def)
  have 2: "\<not> truthy (PStr [])" by simp
  have 3: "py_float (dict_get undated_task ''confidence_score'' (PFloat 0)) = Inr 0.8"
    by (simp add: undated_task_def dict_get_def)
  have 4: "py_lower (dict_get undated_task ''task_description'' (PStr []))
             = Inr ''we might want to meet''"
    by code_simp
  have 5: "dict_get undated_task ''assignee'' PNone \<noteq> PStr ''unspecified''"
    by (simp add: undated_task_def dict_get_def)
  have 6: "list_ex (\<lambda>word. py_in word ''we might want to meet'') vague_words"
    by (simp add: vague_words_def)
  from falsy_deadline_penalised [OF 1 2 3 4] 5 6
  have "\<exists>m rest. calculate_final_confidence undated_task = Inr m
      \<and> map_of m ''rule_penalties'' = Some (PFloat 0.25)
      \<and> map_of m ''adjustments'' = Some (PList (PStr ''No deadline specified (-0.15)'' # rest))"
    by simp
  with 1 2 3 4 show ?thesis by blast
qed

section \<open>What route\_task returns\<close>

lemma route_task_value:
  assumes "map_of metrics ''final_confidence'' = Some v" and "py_float v = Inr fc"
  shows "route_task q now task metrics =
     (if auto_approve_threshold q \<le> fc then
        Inr (routed now task metrics ''auto_approved'' ''auto_approved'',
             q\<lparr>auto_approved :=
                 auto_approved q @ [routed now task metrics ''auto_approved'' ''auto_approved'']\<rparr>)
      else if high_priority_threshold q \<le> fc then
        Inr (routed now task metrics ''standard_review'' ''needs_review'',
             q\<lparr>standard_review :=
                 standard_review q @ [routed now task metrics ''standard_review'' ''needs_review'']\<rparr>)
      else
        Inr (routed now task metrics ''high_priority_review'' ''needs_urgent_review'',
             q\<lparr>high_priority_review :=
                 high_priority_review q
                 @ [routed now task metrics ''high_priority_review'' ''needs_urgent_review'']\<rparr>))"
  using assms by (simp add: route_task_def dict_item_def py_ge_def Let_def routed_def)

lemma map_of_routed:
  "map_of (routed now task metrics lane status) =
     (map_of task)(''confidence_metrics'' \<mapsto> PDict metrics, ''routed_at'' \<mapsto> PStr now,
                   ''review_status'' \<mapsto> PStr status, ''queue'' \<mapsto> PStr lane)"
  by (simp add: routed_def update_conv')

lemma routed_queue: "map_of (routed now task metrics lane status) ''queue'' = Some (PStr lane)"
  by (simp add: map_of_routed)

lemma routed_status:
  "map_of (routed now task metrics lane status) ''review_status'' = Some (PStr status)"
  by (simp add: map_of_routed)

lemma default_queue_init: "TaskReviewQueue_init 0.7 0.5 = Inr default_queue"
  by (simp add: TaskReviewQueue_init_def default_queue_def)

lemma penalty_sum_nonneg: "0 \<le> penalty_sum task d"
  by (simp add: penalty_sum_def)

lemma route_task_lanes:
  assumes "routable metrics"
  shows "\<exists>r q'. route_task q now task metrics = Inr (r, q')
      \<and> auto_approve_threshold q' = auto_approve_threshold q
      \<and> high_priority_threshold q' = high_priority_threshold q
      \<and> auto_approved q' = auto_approved q @ filter (in_lane ''auto_approved'') [r]
      \<and> standard_review q' = standard_review q @ filter (in_lane ''standard_review'') [r]
      \<and> high_priority_review q' =
          high_priority_review q @ filter (in_lane ''high_priority_review'') [r]
      \<and> length (auto_approved q') + length (standard_review q') + length (high_priority_review q')
          = Suc (length (auto_approved q) + length (standard_review q)
                 + length (high_priority_review q))"
proof -
  from assms obtain v where v: "map_of metrics ''final_confidence'' = Some v" "is_number v"
    by (auto simp: routable_def split: option.splits)
  from is_number_float [OF v(2)] obtain fc where fc: "py_float v = Inr fc" by blast
  show ?thesis
    by (simp add: route_task_value [OF v(1) fc] in_lane_def routed_queue)
qed

lemma route_calls_lanes:
  assumes "list_all (\<lambda>c. routable (snd (snd c))) calls"
  shows "\<exists>rs q'. route_calls q calls = Inr (rs, q')
      \<and> length rs = length calls
      \<and> auto_approve_threshold q' = auto_approve_threshold q
      \<and> high_priority_threshold q' = high_priority_threshold q
      \<and> auto_approved q' = auto_approved q @ filter (in_lane ''auto_approved'') rs
      \<and> standard_review q' = standard_review q @ filter (in_lane ''standard_review'') rs
      \<and> high_priority_review q' =
          high_priority_review q @ filter (in_lane ''high_priority_review'') rs
      \<and> length (auto_approved q') + length (standard_review q') + length (high_priority_review q')
          = length (auto_approved q) + length (standard_review q)
            + length (high_priority_review q) + length calls"
  using assms
proof (induction calls arbitrary: q)
  case Nil
  then show ?case by simp
next
  case (Cons c calls)
  obtain now task metrics where c: "c = (now, task, metrics)" by (cases c) auto
  from Cons.prems c have rm: "routable metrics" and rest: "list_all (\<lambda>c. routable (snd (snd c))) calls"
    by simp_all
  from route_task_lanes [OF rm, of q now task] obtain r q1 where
    r: "route_task q now task metrics = Inr (r, q1)"
    and q1: "auto_approve_threshold q1 = auto_approve_threshold q"
      "high_priority_threshold q1 = high_priority_threshold q"
      "auto_approved q1 = auto_approved q @ filter (in_lane ''auto_approved'') [r]"
      "standard_review q1 = standard_review q @ filter (in_lane ''standard_review'') [r]"
      "high_priority_review q1 =
          high_priority_review q @ filter (in_lane ''high_priority_review'') [r]"
      "length (auto_approved q1) + length (standard_review q1) + length (high_priority_review q1)
          = Suc (length (auto_approved q) + length (standard_review q)
                 + length (high_priority_review q))"
    by blast
  from Cons.IH [OF rest, of q1] obtain rs q2 where
    rs: "route_calls q1 calls = Inr (rs, q2)"
    and q2: "length rs = length calls"
      "auto_approve_threshold q2 = auto_approve_threshold q1"
      "high_priority_threshold q2 = high_priority_threshold q1"
      "auto_approved q2 = auto_approved q1 @ filter (in_lane ''auto_approved'') rs"
      "standard_review q2 = standard_review q1 @ filter (in_lane ''standard_review'') rs"
      "high_priority_review q2 =
          high_priority_review q1 @ filter (in_lane ''high_priority_review'') rs"
      "length (auto_approved q2) + length (standard_review q2) + length (high_priority_review q2)
          = length (auto_approved q1) + length (standard_review q1)
            + length (high_priority_review q1) + length calls"
    by blast
  have "route_calls q (c # calls) = Inr (r # rs, q2)"
    using c r rs by simp
  moreover have "length (r # rs) = length (c # calls)" using q2(1) by simp
  moreover have "auto_approved q2 = auto_approved q @ filter (in_lane ''auto_approved'') (r # rs)"
    using q1(3) q2(4) by simp
  moreover have "standard_review q2 = standard_review q @ filter (in_lane ''standard_review'') (r # rs)"
    using q1(4) q2(5) by simp
  moreover have "high_priority_review q2 =
      high_priority_review q @ filter (in_lane ''high_priority_review'') (r # rs)"
    using q1(5) q2(6) by simp
  moreover have "length (auto_approved q2) + length (standard_review q2)
      + length (high_priority_review q2)
      = length (auto_approved q) + length (standard_review q)
        + length (high_priority_review q) + length (c # calls)"
    using q1(6) q2(7) by simp
  ultimately show ?case using q1(1,2) q2(2,3) by simp
qed

section \<open>Claims about the review queue\<close>

text \<open>
  C2. \<^verbatim>\<open>route_task\<close> compares with \<^verbatim>\<open>>=\<close>: a final confidence at or above the
  auto-approve threshold goes to lane auto_approved with status auto_approved; otherwise
  one at or above the high-priority threshold goes to standard_review with status
  needs_review; otherwise the task goes to high_priority_review with status
  needs_urgent_review. The routed task is appended to that lane and nothing else changes.
  The witness below routes 0.7, 0.5 and 0.49 on the default thresholds.
\<close>

theorem route_task_bands:
  assumes "map_of metrics ''final_confidence'' = Some v" and "py_float v = Inr fc"
  shows "\<exists>r q'. route_task q now task metrics = Inr (r, q') \<and>
     (if auto_approve_threshold q \<le> fc then
        map_of r ''queue'' = Some (PStr ''auto_approved'')
        \<and> map_of r ''review_status'' = Some (PStr ''auto_approved'')
        \<and> q' = q\<lparr>auto_approved := auto_approved q @ [r]\<rparr>
      else if high_priority_threshold q \<le> fc then
        map_of r ''queue'' = Some (PStr ''standard_review'')
        \<and> map_of r ''review_status'' = Some (PStr ''needs_review'')
        \<and> q' = q\<lparr>standard_review := standard_review q @ [r]\<rparr>
      else
        map_of r ''queue'' = Some (PStr ''high_priority_review'')
        \<and> map_of r ''review_status'' = Some (PStr ''needs_urgent_review'')
        \<and> q' = q\<lparr>high_priority_review := high_priority_review q @ [r]\<rparr>)"
  by (simp add: route_task_value [OF assms] routed_queue routed_status)

theorem route_task_bands_witness:
  "(\<exists>r q'. route_task default_queue ''2024-03-01T09:00:00'' scenario1 (metrics_at 0.7) = Inr (r, q')
      \<and> map_of r ''queue'' = Some (PStr ''auto_approved'')
      \<and> map_of r ''review_status'' = Some (PStr ''auto_approved'')
      \<and> q' = default_queue\<lparr>auto_approved := [r]\<rparr>)
   \<and> (\<exists>r q'. route_task default_queue ''2024-03-01T09:00:00'' scenario1 (metrics_at 0.5) = Inr (r, q')
      \<and> map_of r ''queue'' = Some (PStr ''standard_review'')
      \<and> map_of r ''review_status'' = Some (PStr ''needs_review'')
      \<and> q' = default_queue\<lparr>standard_review := [r]\<rparr>)
   \<and> (\<exists>r q'. route_task default_queue ''2024-03-01T09:00:00'' scenario1 (metrics_at 0.49) = Inr (r, q')
      \<and> map_of r ''queue'' = Some (PStr ''high_priority_review'')
      \<and> map_of r ''review_status'' = Some (PStr ''needs_urgent_review'')
      \<and> q' = default_queue\<lparr>high_priority_review := [r]\<rparr>)"
proof -
  have m: "map_of (metrics_at x) ''final_confidence'' = Some (PFloat x)" for x
    by (simp add: metrics_at_def)
  have f: "py_float (PFloat x) = Inr x" for x by simp
  note b = route_task_bands [where q = default_queue and now = "''2024-03-01T09:00:00''"
      and task = scenario1]
  from b [OF m [of "0.7"] f] b [OF m [of "0.5"] f] b [OF m [of "0.49"] f]
  show ?thesis
    by (simp add: default_queue_def)
qed

text \<open>
  C3 says that the constructor rejects thresholds outside [0, 1] and inverted thresholds.
  The constructor has no check: it returns a queue for 1.5 and -0.2, and for 0.3 and 0.8.
\<close>

theorem init_counterexample:
  "\<not> valid_thresholds 1.5 (- 0.2)
   \<and> TaskReviewQueue_init 1.5 (- 0.2) =
       Inr \<lparr>auto_approve_threshold = 1.5, high_priority_threshold = - 0.2,
            auto_approved = [], standard_review = [], high_priority_review = []\<rparr>
   \<and> \<not> valid_thresholds 0.3 0.8
   \<and> TaskReviewQueue_init 0.3 0.8 =
       Inr \<lparr>auto_approve_threshold = 0.3, high_priority_threshold = 0.8,
            auto_approved = [], standard_review = [], high_priority_review = []\<rparr>"
  by (simp add: valid_thresholds_def TaskReviewQueue_init_def)

text \<open>
  C3, amended. The constructor never fails: whatever the two thresholds are, it returns a
  queue that stores them as given, with three empty lanes. Routing does not check them
  either: on that queue \<^verbatim>\<open>route_task\<close> returns whenever the final confidence is a number.
\<close>

theorem init_never_fails:
  "\<exists>q. TaskReviewQueue_init a h = Inr q
     \<and> auto_approve_threshold q = a \<and> high_priority_threshold q = h
     \<and> auto_approved q = [] \<and> standard_review q = [] \<and> high_priority_review q = []
     \<and> (routable metrics \<longrightarrow> (\<exists>r q'. route_task q now task metrics = Inr (r, q')))"
proof -
  have "\<exists>r q'. route_task q now task metrics = Inr (r, q')" if "routable metrics" for q
  proof -
    from that obtain v where v: "map_of metrics ''final_confidence'' = Some v" "is_number v"
      by (auto simp: routable_def split: option.splits)
    from is_number_float [OF v(2)] obtain fc where "py_float v = Inr fc" by blast
    then show ?thesis by (simp add: route_task_value [OF v(1)])
  qed
  then show ?thesis by (simp add: TaskReviewQueue_init_def)
qed

theorem init_never_fails_witness:
  "routable (metrics_at 0.5)
   \<and> (\<exists>q. TaskReviewQueue_init 0.3 0.8 = Inr q
     \<and> auto_approve_threshold q = 0.3 \<and> high_priority_threshold q = 0.8
     \<and> auto_approved q = [] \<and> standard_review q = [] \<and> high_priority_review q = []
     \<and> (\<exists>r q'. route_task q ''2024-03-01T09:00:00'' scenario1 (metrics_at 0.5) = Inr (r, q')))"
proof -
  have r: "routable (metrics_at 0.5)"
    by (simp add: routable_def metrics_at_def)
  from init_never_fails [of "0.3" "0.8" "metrics_at 0.5" "''2024-03-01T09:00:00''" scenario1] r
  show ?thesis by blast
qed

text \<open>
  C9. A task record without the field \<^verbatim>\<open>confidence_score\<close> has base confidence 0.0 and
  final confidence 0.0, and a queue with the default thresholds 0.7 and 0.5 places it in
  lane high_priority_review with status needs_urgent_review.
\<close>

theorem missing_confidence_urgent:
  assumes "map_of task ''confidence_score'' = None"
    and "py_lower (dict_get task ''task_description'' (PStr [])) = Inr d"
    and "auto_approve_threshold q = 0.7" and "high_priority_threshold q = 0.5"
  shows "\<exists>m r q'. calculate_final_confidence task = Inr m
      \<and> map_of m ''llm_confidence'' = Some (PFloat 0)
      \<and> map_of m ''final_confidence'' = Some (PFloat 0)
      \<and> route_task q now task m = Inr (r, q')
      \<and> map_of r ''queue'' = Some (PStr ''high_priority_review'')
      \<and> map_of r ''review_status'' = Some (PStr ''needs_urgent_review'')
      \<and> q' = q\<lparr>high_priority_review := high_priority_review q @ [r]\<rparr>"
proof -
  have g: "dict_get task ''confidence_score'' (PFloat 0) = PFloat 0"
    using assms(1) by (simp add: dict_get_def)
  then have c: "py_float (dict_get task ''confidence_score'' (PFloat 0)) = Inr 0" by simp
  let ?f = "max 0 (min 1 (0 - penalty_sum task d))"
  have f0: "?f = 0"
    using penalty_sum_nonneg [of task d] by simp
  obtain m where m: "calculate_final_confidence task = Inr m"
    and ml: "map_of m ''llm_confidence'' = Some (PFloat 0)"
    and mf: "map_of m ''final_confidence'' = Some (PFloat 0)"
    using f0 g by (simp add: calculate_value [OF c assms(2)])
  have pf: "py_float (PFloat 0) = Inr 0" by simp
  show ?thesis
    using m ml mf assms(3,4)
    by (simp add: route_task_value [OF mf pf] routed_queue routed_status)
qed

theorem missing_confidence_urgent_witness:
  "map_of unscored_task ''confidence_score'' = None
   \<and> py_lower (dict_get unscored_task ''task_description'' (PStr [])) = Inr ''book the room''
   \<and> auto_approve_threshold default_queue = 0.7 \<and> high_priority_threshold default_queue = 0.5
   \<and> (\<exists>m r q'. calculate_final_confidence unscored_task = Inr m
      \<and> map_of m ''llm_confidence'' = Some (PFloat 0)
      \<and> map_of m ''final_confidence'' = Some (PFloat 0)
      \<and> route_task default_queue ''2024-03-01T09:00:00'' unscored_task m = Inr (r, q')
      \<and> map_of r ''queue'' = Some (PStr ''high_priority_review'')
      \<and> map_of r ''review_status'' = Some (PStr ''needs_urgent_review'')
      \<and> q' = default_queue\<lparr>high_priority_review := high_priority_review default_queue @ [r]\<rparr>)"
proof -
  have 1: "map_of unscored_task ''confidence_score'' = None"
    by (simp add: unscored_task_def)
  have 2: "py_lower (dict_get unscored_task ''task_description'' (PStr [])) = Inr ''book the room''"
    by code_simp
  have 3: "auto_approve_threshold default_queue = 0.7"
    and 4: "high_priority_threshold default_queue = 0.5"
    by (simp_all add: default_queue_def)
  from 1 2 3 4 missing_confidence_urgent [OF 1 2 3 4, of "''2024-03-01T09:00:00''"]
  show ?thesis by blast
qed

text \<open>
  C6. After any sequence of \<^verbatim>\<open>route_task\<close> calls on a new queue, \<^verbatim>\<open>get_review_tasks\<close>
  returns the tasks routed to high_priority_review, in call order, followed by the tasks
  routed to standard_review, in call order, and none of them is in the auto_approved lane.
  The call leaves the queue as it was.
\<close>

theorem review_tasks_order:
  assumes "TaskReviewQueue_init a h = Inr q0"
    and "list_all (\<lambda>c. routable (snd (snd c))) calls"
  shows "\<exists>rs q review. route_calls q0 calls = Inr (rs, q)
      \<and> get_review_tasks q = (review, q)
      \<and> review = filter (in_lane ''high_priority_review'') rs
                 @ filter (in_lane ''standard_review'') rs
      \<and> auto_approved q = filter (in_lane ''auto_approved'') rs
      \<and> set review \<inter> set (auto_approved q) = {}"
proof -
  from assms(1) have q0: "auto_approved q0 = []" "standard_review q0 = []"
    "high_priority_review q0 = []"
    by (auto simp: TaskReviewQueue_init_def)
  from route_calls_lanes [OF assms(2), of q0] q0 obtain rs q where
    rs: "route_calls q0 calls = Inr (rs, q)"
    and l: "auto_approved q = filter (in_lane ''auto_approved'') rs"
      "standard_review q = filter (in_lane ''standard_review'') rs"
      "high_priority_review q = filter (in_lane ''high_priority_review'') rs"
    by auto
  have "set (high_priority_review q @ standard_review q) \<inter> set (auto_approved q) = {}"
    unfolding l by (auto simp: in_lane_def)
  then show ?thesis
    using rs l by (simp add: get_review_tasks_def)
qed

theorem review_tasks_order_witness:
  "TaskReviewQueue_init 0.7 0.5 = Inr default_queue
   \<and> list_all (\<lambda>c. routable (snd (snd c))) example_calls
   \<and> (\<exists>rs q review. route_calls default_queue example_calls = Inr (rs, q)
      \<and> get_review_tasks q = (review, q)
      \<and> review = filter (in_lane ''high_priority_review'') rs
                 @ filter (in_lane ''standard_review'') rs
      \<and> auto_approved q = filter (in_lane ''auto_approved'') rs
      \<and> set review \<inter> set (auto_approved q) = {})"
proof -
  have 1: "TaskReviewQueue_init 0.7 0.5 = Inr default_queue"
    by (rule default_queue_init)
  have 2: "list_all (\<lambda>c. routable (snd (snd c))) example_calls"
    by (simp add: example_calls_def routable_def metrics_at_def)
  from 1 2 review_tasks_order [OF 1 2] show ?thesis by blast
qed

text \<open>
  C7. After \<open>n\<close> calls of \<^verbatim>\<open>route_task\<close> on a new queue, \<^verbatim>\<open>get_summary\<close> leaves the queue
  as it was, its total is the sum of the three lane counts and is \<open>n\<close>, and a second call
  right after the first returns the same.
\<close>

theorem summary_total:
  assumes "TaskReviewQueue_init a h = Inr q0"
    and "list_all (\<lambda>c. routable (snd (snd c))) calls"
  shows "\<exists>rs q summary na ns nh. route_calls q0 calls = Inr (rs, q)
      \<and> get_summary q = (summary, q)
      \<and> map_of summary ''auto_approved'' = Some (PInt na)
      \<and> map_of summary ''standard_review'' = Some (PInt ns)
      \<and> map_of summary ''high_priority_review'' = Some (PInt nh)
      \<and> map_of summary ''total_tasks'' = Some (PInt (na + ns + nh))
      \<and> na + ns + nh = int (length calls)
      \<and> get_summary (snd (get_summary q)) = get_summary q"
proof -
  from assms(1) have q0: "auto_approved q0 = []" "standard_review q0 = []"
    "high_priority_review q0 = []"
    by (auto simp: TaskReviewQueue_init_def)
  from route_calls_lanes [OF assms(2), of q0] q0 obtain rs q where
    rs: "route_calls q0 calls = Inr (rs, q)"
    and n: "length (auto_approved q) + length (standard_review q) + length (high_priority_review q)
          = length calls"
    by auto
  from n have "int (length (auto_approved q)) + int (length (standard_review q))
      + int (length (high_priority_review q)) = int (length calls)"
    by linarith
  then show ?thesis
    using rs by (simp add: get_summary_def)
qed


theorem summary_total_witness:
  "TaskReviewQueue_init 0.7 0.5 = Inr default_queue
   \<and> list_all (\<lambda>c. routable (snd (snd c))) example_calls
   \<and> (\<exists>rs q summary na ns nh. route_calls default_queue example_calls = Inr (rs, q)
      \<and> get_summary q = (summary, q)
      \<and> map_of summary ''auto_approved'' = Some (PInt na)
      \<and> map_of summary ''standard_review'' = Some (PInt ns)
      \<and> map_of summary ''high_priority_review'' = Some (PInt nh)
      \<and> map_of summary ''total_tasks'' = Some (PInt (na + ns + nh))
      \<and> na + ns + nh = 4
      \<and> get_summary (snd (get_summary q)) = get_summary q)"
proof -
  have 1: "TaskReviewQueue_init 0.7 0.5 = Inr default_queue"
    by (rule default_queue_init)
  have 2: "list_all (\<lambda>c. routable (snd (snd c))) example_calls"
    by (simp add: example_calls_def routable_def metrics_at_def)
  have 3: "int (length example_calls) = 4"
    by (simp add: example_calls_def)
  from summary_total [OF 1 2] 3
  have "\<exists>rs q summary na ns nh. route_calls default_queue example_calls = Inr (rs, q)
      \<and> get_summary q = (summary, q)
      \<and> map_of summary ''auto_approved'' = Some (PInt na)
      \<and> map_of summary ''standard_review'' = Some (PInt ns)
      \<and> map_of summary ''high_priority_review'' = Some (PInt nh)
      \<and> map_of summary ''total_tasks'' = Some (PInt (na + ns + nh))
      \<and> na + ns + nh = 4
      \<and> get_summary (snd (get_summary q)) = get_summary q"
    by simp
  with 1 2 show ?thesis by blast
qed

section \<open>The loop of process\_email\<close>




lemma process_email_error_response:
  assumes "TaskExtractor_init api_key getenv = Inr key"
    and "extract_tasks key email_content sender = create_error_response error_message timestamp"
  shows "process_email extract_tasks clock getenv email_content sender api_key
           = Inr [(''success'', PBool False), (''error'', PStr error_message),
                  (''extraction_result'',
                     PDict (create_error_response error_message timestamp))]"
  using assms
  by (simp add: process_email_def TaskReviewQueue_init_def dict_get_def
      create_error_response_def)

lemma process_email_empty_ambiguities:
  assumes "TaskExtractor_init api_key getenv = Inr key"
    and "extract_tasks key email_content sender = er"
    and "truthy (dict_get er ''error'' PNone)"
    and "map_of er ''ambiguities'' = Some (PList [])"
  shows "process_email extract_tasks clock getenv email_content sender api_key = Inl IndexError"
  using assms by (simp add: process_email_def TaskReviewQueue_init_def dict_get_def)

lemma process_tasks_length:
  "process_tasks clock q processed ts = Inr (rs, q')
     \<Longrightarrow> length rs = length processed + length ts"
proof (induction ts arbitrary: q processed)
  case Nil
  then show ?case by simp
next
  case (Cons t ts)
  then show ?case
    by (fastforce split: sum.splits prod.splits)
qed

lemma process_email_no_partial_result:
  assumes "process_email extract_tasks clock getenv email_content sender api_key = Inr result"
  shows "(map_of result ''success'' = Some (PBool False)
          \<and> map_of result ''processed_tasks'' = None)
      \<or> (\<exists>key items processed.
            map_of result ''success'' = Some (PBool True)
            \<and> py_iter (dict_get (extract_tasks key email_content sender) ''tasks'' (PList []))
                = Inr items
            \<and> map_of result ''processed_tasks'' = Some (PList (map PDict processed))
            \<and> length processed = length items)"
  using assms
  by (auto simp: process_email_def TaskReviewQueue_init_def get_summary_def get_review_tasks_def
      Let_def split: sum.splits if_splits prod.splits dest: process_tasks_length)

section \<open>Claim about process\_email\<close>




end
